theory Spec2Isabelle
  imports Complex_Main "HOL-Library.Log_Nat"
begin

section \<open>Values and exceptions\<close>

text \<open>
  The service of \<^verbatim>\<open>cryp.py\<close> is a set of request handlers over module-level
  state (the exchange-rate cache, the rate limiter's table) and a history file. Each
  handler is modelled as a function from the state and the request to a response and
  the new state. The readings of \<^verbatim>\<open>time.time()\<close> and \<^verbatim>\<open>datetime.now()\<close> and the
  exchange rates are modelled by reals; only their order and differences are used, and
  no result below depends on how a difference is rounded. The amount of a payment is a
  Python float with its special values, see \<open>pyfloat\<close>. The second file, \<^verbatim>\<open>iop.py\<close>, is
  a shorter variant of the same service without validation, history or rate limiting;
  the handlers modelled here are those of \<^verbatim>\<open>cryp.py\<close>.
\<close>

type_synonym instant = real

text \<open>
  The exceptions the handlers can meet. \<open>External\<close> is an exception raised inside a
  collaborator (the charge provider's client, the QR library, the webhook verifier, the
  HTTP fetch of the rates), with its message.
\<close>

datatype exn = TypeError | ValueError | OverflowError | KeyError string | External string

text \<open>
  A Python float: a finite value, an infinity or NaN. The finite values are written as
  reals; the doubles are among them, and what is proved of every real holds of every
  double. \<open>le_zero\<close> is the comparison \<^verbatim>\<open>x <= 0\<close>, which is false of NaN, and
  \<open>gt_zero\<close> is \<^verbatim>\<open>x > 0\<close>.
\<close>

datatype pyfloat = Fin real | PInf | NInf | NaN

fun le_zero :: "pyfloat \<Rightarrow> bool" where
  "le_zero (Fin x) = (x \<le> 0)"
| "le_zero NInf = True"
| "le_zero PInf = False"
| "le_zero NaN = False"

fun gt_zero :: "pyfloat \<Rightarrow> bool" where
  "gt_zero (Fin x) = (0 < x)"
| "gt_zero PInf = True"
| "gt_zero NInf = False"
| "gt_zero NaN = False"

text \<open>
  \<^verbatim>\<open>float(n)\<close> for a Python int: the nearest double, ties to the even mantissa of 53
  bits, and \<^verbatim>\<open>OverflowError\<close> when that is \<open>2 ^ 1024\<close> or more. \<open>s\<close> is the number
  of low bits that do not fit the mantissa.
\<close>

definition round_half_even :: "nat \<Rightarrow> nat \<Rightarrow> nat" where
  "round_half_even m s =
     (let q = m div 2 ^ s; r = m mod 2 ^ s
      in if 2 * r > 2 ^ s \<or> (2 * r = 2 ^ s \<and> odd q) then q + 1 else q)"

definition float_of_int_py :: "int \<Rightarrow> exn + pyfloat" where
  "float_of_int_py n =
     (let m = nat \<bar>n\<bar>;
          s = nat (bitlen (int m)) - 53;
          v = round_half_even m s * 2 ^ s
      in if v \<ge> 2 ^ 1024 then Inl OverflowError
         else Inr (Fin (if n < 0 then - real v else real v)))"

section \<open>Rate limiter\<close>

text \<open>
  \<^verbatim>\<open>RATE_LIMIT\<close>: the ceiling, the window, and the table \<^verbatim>\<open>ip_requests\<close>, a dict
  from the client address to the list of instants recorded for it (lines 118 and 120 are
  the only writes of a value: a list is appended to, or a one-element list is stored).
  The dict is an association list in insertion order, with one entry per key.
\<close>

definition RATE_LIMIT_requests :: nat where
  "RATE_LIMIT_requests = 100"

definition RATE_LIMIT_window :: real where
  "RATE_LIMIT_window = 3600"

type_synonym ip_requests = "(string \<times> instant list) list"

text \<open>
  Line 111 evaluates \<^verbatim>\<open>current_time - timestamp\<close>, where \<^verbatim>\<open>timestamp\<close> is the value
  of a dict item, that is, a list. A float minus a list is a \<^verbatim>\<open>TypeError\<close> in Python,
  whatever the operands' values.
\<close>

definition float_sub_list :: "instant \<Rightarrow> instant list \<Rightarrow> exn + real" where
  "float_sub_list current_time timestamp = Inl TypeError"

text \<open>
  The dict comprehension of lines 109 to 112: the items are visited in order, the
  condition is evaluated for each, and an exception in the condition leaves the
  comprehension (and the decorator).
\<close>

fun clean_up :: "instant \<Rightarrow> ip_requests \<Rightarrow> exn + ip_requests" where
  "clean_up current_time [] = Inr []"
| "clean_up current_time ((ip, timestamp) # items) =
     (case float_sub_list current_time timestamp of
        Inl e \<Rightarrow> Inl e
      | Inr age \<Rightarrow>
          (case clean_up current_time items of
             Inl e \<Rightarrow> Inl e
           | Inr kept \<Rightarrow> Inr (if age < RATE_LIMIT_window then (ip, timestamp) # kept else kept)))"

text \<open>Storing a value under a key of a dict: in place when the key is there, at the end otherwise.\<close>

fun dict_set :: "('k \<times> 'v) list \<Rightarrow> 'k \<Rightarrow> 'v \<Rightarrow> ('k \<times> 'v) list" where
  "dict_set [] k v = [(k, v)]"
| "dict_set ((k', v') # d) k v = (if k' = k then (k, v) # d else (k', v') # dict_set d k v)"

text \<open>
  What the decorator decides before it calls the wrapped handler.
  \<open>Admitted\<close>: the handler is called; \<open>Limited\<close>: the response is
  \<^verbatim>\<open>{'error': 'Rate limit exceeded'}\<close> with status 429. The decorator has no
  \<^verbatim>\<open>try\<close>: an exception leaves it, and is the result \<open>Inl\<close>.
\<close>

datatype decision = Admitted | Limited

definition rate_limit :: "string \<Rightarrow> instant \<Rightarrow> ip_requests \<Rightarrow> exn + (decision \<times> ip_requests)" where
  "rate_limit ip current_time table =
     (case clean_up current_time table of
        Inl e \<Rightarrow> Inl e
      | Inr cleaned \<Rightarrow>
          (case map_of cleaned ip of
             Some instants \<Rightarrow>
               if length instants \<ge> RATE_LIMIT_requests then Inr (Limited, cleaned)
               else Inr (Admitted, dict_set cleaned ip (instants @ [current_time]))
           | None \<Rightarrow> Inr (Admitted, dict_set cleaned ip [current_time])))"

text \<open>A sequence of requests of one client, at the given instants, from a given table.\<close>

fun rate_limit_run :: "string \<Rightarrow> instant list \<Rightarrow> ip_requests \<Rightarrow> (exn + decision) list" where
  "rate_limit_run ip [] table = []"
| "rate_limit_run ip (t # ts) table =
     (case rate_limit ip t table of
        Inl e \<Rightarrow> Inl e # rate_limit_run ip ts table
      | Inr (d, table') \<Rightarrow> Inr d # rate_limit_run ip ts table')"

section \<open>Exchange rate cache\<close>

type_synonym rates = "(string \<times> real) list"

record cache =
  rates :: rates
  timestamp :: instant

definition CACHE_DURATION :: real where
  "CACHE_DURATION = 3600"

text \<open>The module-level \<^verbatim>\<open>exchange_rate_cache\<close> as the module is loaded.\<close>

definition exchange_rate_cache :: cache where
  "exchange_rate_cache = \<lparr>rates = [], timestamp = 0\<rparr>"

text \<open>
  The \<^verbatim>\<open>try\<close> block of \<^verbatim>\<open>get_exchange_rates\<close>. \<open>fetched\<close> is what
  \<^verbatim>\<open>requests.get(EXCHANGE_RATE_API).json()['rates']\<close> evaluates to at this call:
  the rates, or the exception raised on the way (network, malformed body, missing key).
  The two assignments to the cache follow the fetch and cannot fail.
\<close>

definition refresh :: "exn + rates \<Rightarrow> instant \<Rightarrow> cache \<Rightarrow> exn + (rates \<times> cache)" where
  "refresh fetched current_time c =
     (case fetched of
        Inl e \<Rightarrow> Inl e
      | Inr new_rates \<Rightarrow> Inr (new_rates, \<lparr>rates = new_rates, timestamp = current_time\<rparr>))"

definition get_exchange_rates :: "exn + rates \<Rightarrow> instant \<Rightarrow> cache \<Rightarrow> rates \<times> cache" where
  "get_exchange_rates fetched current_time c =
     (if current_time - timestamp c < CACHE_DURATION then (rates c, c)
      else (case refresh fetched current_time c of
              Inr r \<Rightarrow> r
            | Inl e \<Rightarrow> (rates c, c)))"

section \<open>Payment records and the history file\<close>

datatype PaymentStatus = PENDING | COMPLETED | FAILED | EXPIRED

text \<open>
  The dataclass \<^verbatim>\<open>PaymentInfo\<close>. The field \<^verbatim>\<open>id\<close> is \<open>id'\<close> here, \<open>id\<close>
  being the identity function of HOL.
\<close>

record PaymentInfo =
  id' :: string
  amount :: pyfloat
  currency :: string
  crypto :: string
  status :: PaymentStatus
  timestamp' :: instant
  payment_url :: string
  exchange_rate :: "real option"
  customer_email :: "string option"
  description :: "string option"

text \<open>
  An entry of the history: the \<^verbatim>\<open>__dict__\<close> of a \<^verbatim>\<open>PaymentInfo\<close>, to which the
  webhook adds the key \<^verbatim>\<open>completed_at\<close> (\<open>None\<close>: the key is absent). The strings
  that \<^verbatim>\<open>json.dump(..., default=str)\<close> writes for the status and the instants are
  modelled by the values they stand for.
\<close>

record payment = PaymentInfo +
  completed_at :: "instant option"

definition dict_of :: "PaymentInfo \<Rightarrow> payment" where
  "dict_of p =
     \<lparr>id' = id' p, amount = amount p, currency = currency p, crypto = crypto p,
      status = status p, timestamp' = timestamp' p, payment_url = payment_url p,
      exchange_rate = exchange_rate p, customer_email = customer_email p,
      description = description p, completed_at = None\<rparr>"

text \<open>
  The file \<^verbatim>\<open>payment_history.json\<close>: absent, not JSON, unreadable for another
  reason, or holding a list of entries; and whether it can be opened for writing.
\<close>

datatype file_content = Missing | Corrupt | Unreadable | Stored "payment list"

record disk =
  payment_history_json :: file_content
  writable :: bool

definition load_payment_history :: "disk \<Rightarrow> payment list" where
  "load_payment_history d =
     (case payment_history_json d of
        Stored history \<Rightarrow> history
      | Missing \<Rightarrow> []
      | Corrupt \<Rightarrow> []
      | Unreadable \<Rightarrow> [])"

definition save_payment_history :: "payment list \<Rightarrow> disk \<Rightarrow> bool \<times> disk" where
  "save_payment_history history d =
     (if writable d then (True, d\<lparr>payment_history_json := Stored history\<rparr>)
      else (False, d))"

section \<open>Requests, collaborators and responses\<close>

text \<open>
  A value of the parsed body (\<^verbatim>\<open>request.json\<close>): \<^verbatim>\<open>None\<close>, a bool, an int, a
  float, a string, a list or a dict. A JSON number without fraction and exponent is an
  int of any size; the others are floats, the parser having rounded them and turned
  \<^verbatim>\<open>NaN\<close> and \<^verbatim>\<open>Infinity\<close> into the special values.
\<close>

datatype json = JNull | JBool bool | JInt int | JFloat pyfloat | JStr string
  | JArray "json list" | JObject "(string \<times> json) list"

text \<open>
  The JSON object of a \<^verbatim>\<open>/create_payment\<close> request; \<open>None\<close> is a key the body
  omits. The amount is any JSON value; the other fields are strings when present.
\<close>

record payment_request =
  req_amount :: "json option"
  req_currency :: "string option"
  req_crypto :: "string option"
  req_customer_email :: "string option"
  req_description :: "string option"

text \<open>What \<^verbatim>\<open>client.charge.create\<close> is called with, and the charge it returns.\<close>

record metadata =
  meta_customer_id :: string
  meta_customer_email :: "string option"
  meta_crypto :: string
  meta_currency :: string
  meta_exchange_rate :: real

record charge_request =
  charge_name :: string
  charge_description :: string
  pricing_type :: string
  local_price_amount :: pyfloat
  local_price_currency :: string
  charge_metadata :: metadata

record charge =
  charge_id :: string
  hosted_url :: string

text \<open>The event that \<^verbatim>\<open>Webhook.construct_event\<close> returns: its type and the id of its charge.\<close>

record event =
  event_type :: string
  event_charge_id :: string

record webhook_request =
  data :: string
  signature_header :: "string option"

text \<open>
  The surroundings of one request. \<open>SUPPORTED_CRYPTOS\<close> (code to display name) and
  \<open>SUPPORTED_CURRENCIES\<close> are used by \<^verbatim>\<open>cryp.py\<close> and defined nowhere in it: they
  are parameters. The others are the collaborators: Python's \<^verbatim>\<open>float\<close> on a string
  (\<open>None\<close>: \<^verbatim>\<open>ValueError\<close>; \<^verbatim>\<open>'nan'\<close>, \<^verbatim>\<open>'inf'\<close> and out-of-range literals
  give the special values), \<^verbatim>\<open>hashlib.md5(...).hexdigest()\<close>, the clock, the
  fetch of the rates, the provider's client, the QR renderer (the hex of the PNG) and
  the provider's webhook verifier with the secret of the environment.
\<close>

record env =
  SUPPORTED_CRYPTOS :: "(string \<times> string) list"
  SUPPORTED_CURRENCIES :: "string list"
  float_of_str :: "string \<Rightarrow> pyfloat option"
  md5_hexdigest :: "string \<Rightarrow> string"
  now :: instant
  fetched_rates :: "exn + rates"
  charge_create :: "charge_request \<Rightarrow> exn + charge"
  qr_png_hex :: "string \<Rightarrow> exn + string"
  COINBASE_WEBHOOK_SECRET :: "string option"
  construct_event :: "string \<Rightarrow> string option \<Rightarrow> string option \<Rightarrow> exn + event"

text \<open>
  The state the handlers share: the rate cache, the history file, and the log of the
  calls the provider's client has received (the provider's side of charge creation).
\<close>

record state =
  rate_cache :: cache
  history_file :: disk
  provider_calls :: "charge_request list"

text \<open>
  A response is the value handed to \<^verbatim>\<open>jsonify\<close> and the HTTP status returned with
  it (200 when the handler gives none).
\<close>

text \<open>
  \<open>PaymentCreated\<close>: success with the payment URL, the QR code and the record;
  \<open>Success\<close>: \<^verbatim>\<open>{'success': True}\<close>; \<open>ErrorMessage\<close> and \<open>ErrorOf\<close>:
  \<^verbatim>\<open>{'success': False, 'error': ...}\<close> with a fixed message or with \<^verbatim>\<open>str(e)\<close>;
  \<open>RateLimitExceeded\<close>: the limiter's \<^verbatim>\<open>{'error': 'Rate limit exceeded'}\<close>.
\<close>

datatype payload =
    PaymentCreated string string PaymentInfo
  | Success
  | ErrorMessage string
  | ErrorOf exn
  | RateLimitExceeded

type_synonym response = "payload \<times> nat"

text \<open>The handlers' \<^verbatim>\<open>except Exception as e\<close>: \<^verbatim>\<open>{'success': False, 'error': str(e)}\<close>, 500.\<close>

definition internal_error :: "exn \<Rightarrow> response" where
  "internal_error e = (ErrorOf e, 500)"

text \<open>
  \<^verbatim>\<open>jsonify\<close> renders the value with a JSON encoder that knows the basic types, dates,
  decimals, UUIDs and dataclasses, and raises \<^verbatim>\<open>TypeError\<close> on any other object. The
  success value of \<^verbatim>\<open>create_payment\<close> holds \<^verbatim>\<open>payment_info.__dict__\<close>, whose
  \<^verbatim>\<open>status\<close> is a member of the plain \<^verbatim>\<open>Enum\<close> \<^verbatim>\<open>PaymentStatus\<close>: it cannot be
  rendered, whatever the member. The other values are dicts of booleans and strings.
\<close>

fun jsonify :: "payload \<Rightarrow> exn + payload" where
  "jsonify (PaymentCreated url qr_code p) = Inl TypeError"
| "jsonify Success = Inr Success"
| "jsonify (ErrorMessage m) = Inr (ErrorMessage m)"
| "jsonify (ErrorOf e) = Inr (ErrorOf e)"
| "jsonify RateLimitExceeded = Inr RateLimitExceeded"

section \<open>Amount validation\<close>

text \<open>Python's \<^verbatim>\<open>float(x)\<close> on a value of the body.\<close>

fun float_py :: "env \<Rightarrow> json \<Rightarrow> exn + pyfloat" where
  "float_py E (JFloat x) = Inr x"
| "float_py E (JInt n) = float_of_int_py n"
| "float_py E (JBool b) = Inr (Fin (if b then 1 else 0))"
| "float_py E (JStr s) = (case float_of_str E s of None \<Rightarrow> Inl ValueError | Some x \<Rightarrow> Inr x)"
| "float_py E JNull = Inl TypeError"
| "float_py E (JArray xs) = Inl TypeError"
| "float_py E (JObject kvs) = Inl TypeError"

text \<open>
  \<^verbatim>\<open>validate_payment_amount\<close>, lines 166 to 174. Its \<^verbatim>\<open>except\<close> catches
  \<^verbatim>\<open>ValueError\<close> and \<^verbatim>\<open>TypeError\<close>; any other exception of the conversion leaves
  the function.
\<close>

definition validate_payment_amount :: "env \<Rightarrow> json \<Rightarrow> string \<Rightarrow> exn + bool" where
  "validate_payment_amount E amount_value currency_code =
     (case float_py E amount_value of
        Inr a \<Rightarrow> if le_zero a then Inr False else Inr True
      | Inl e \<Rightarrow> if e = ValueError \<or> e = TypeError then Inr False else Inl e)"

section \<open>Charge creation\<close>

text \<open>Lines 202 to 204: the amount as a float, and the defaults of the currency and the crypto.\<close>

definition amount_of :: "env \<Rightarrow> payment_request \<Rightarrow> exn + pyfloat" where
  "amount_of E body = float_py E (case req_amount body of None \<Rightarrow> JInt 0 | Some v \<Rightarrow> v)"

definition currency_of :: "payment_request \<Rightarrow> string" where
  "currency_of body = (case req_currency body of None \<Rightarrow> ''USD'' | Some c \<Rightarrow> c)"

definition crypto_of :: "payment_request \<Rightarrow> string" where
  "crypto_of body = (case req_crypto body of None \<Rightarrow> ''BTC'' | Some c \<Rightarrow> c)"

text \<open>Line 220: \<^verbatim>\<open>exchange_rates.get(currency, 1.0)\<close>.\<close>

definition rate_for :: "rates \<Rightarrow> string \<Rightarrow> real" where
  "rate_for exchange_rates currency_code =
     (case map_of exchange_rates currency_code of None \<Rightarrow> 1 | Some r \<Rightarrow> r)"

text \<open>
  Line 232: the MD5 digest of the address when there is one (an empty string is false in
  Python), \<^verbatim>\<open>'anonymous'\<close> otherwise.
\<close>

definition customer_id_of :: "env \<Rightarrow> string option \<Rightarrow> string" where
  "customer_id_of E email =
     (case email of
        None \<Rightarrow> ''anonymous''
      | Some a \<Rightarrow> if a = [] then ''anonymous'' else md5_hexdigest E a)"

text \<open>Lines 223 to 238: the arguments of \<^verbatim>\<open>client.charge.create\<close>.\<close>

definition charge_arguments ::
  "env \<Rightarrow> pyfloat \<Rightarrow> string \<Rightarrow> string \<Rightarrow> string option \<Rightarrow> string \<Rightarrow> real \<Rightarrow> charge_request" where
  "charge_arguments E amount_f currency_code crypto_code email descr rate =
     \<lparr>charge_name = ''Payment'',
      charge_description = descr,
      pricing_type = ''fixed_price'',
      local_price_amount = amount_f,
      local_price_currency = currency_code,
      charge_metadata =
        \<lparr>meta_customer_id = customer_id_of E email,
         meta_customer_email = email,
         meta_crypto = crypto_code,
         meta_currency = currency_code,
         meta_exchange_rate = rate\<rparr>\<rparr>"

text \<open>Lines 257 to 268: the \<^verbatim>\<open>PaymentInfo\<close> built from the charge.\<close>

definition new_payment_info ::
  "env \<Rightarrow> charge \<Rightarrow> pyfloat \<Rightarrow> string \<Rightarrow> string \<Rightarrow> string option \<Rightarrow> string \<Rightarrow> real \<Rightarrow> PaymentInfo" where
  "new_payment_info E ch amount_f currency_code crypto_code email descr rate =
     \<lparr>id' = charge_id ch,
      amount = amount_f,
      currency = currency_code,
      crypto = crypto_code,
      status = PENDING,
      timestamp' = now E,
      payment_url = hosted_url ch,
      exchange_rate = Some rate,
      customer_email = email,
      description = Some descr\<rparr>"

text \<open>
  The body of \<^verbatim>\<open>create_payment\<close>, lines 199 to 284, in the order of the source.
  The default of \<^verbatim>\<open>data.get('description', ...)\<close> is an argument: it is evaluated,
  and \<^verbatim>\<open>SUPPORTED_CRYPTOS[crypto]\<close> looked up, whether the body has a description or
  not, and before any validation. The state changes made before an exception stay (a
  refreshed cache, a charge the provider has created, a record saved). The result of
  \<^verbatim>\<open>save_payment_history\<close> is not looked at. The \<^verbatim>\<open>jsonify\<close> of the success value
  on line 275 is inside the \<^verbatim>\<open>try\<close>: its exception is answered by the \<^verbatim>\<open>except\<close>
  of lines 282 to 284 like any other.
\<close>

definition create_payment :: "env \<Rightarrow> payment_request \<Rightarrow> state \<Rightarrow> response \<times> state" where
  "create_payment E body st =
     (case amount_of E body of
        Inl e \<Rightarrow> (internal_error e, st)
      | Inr amount_f \<Rightarrow>
          let currency_code = currency_of body;
              crypto_code = crypto_of body;
              email = req_customer_email body
          in
          (case map_of (SUPPORTED_CRYPTOS E) crypto_code of
             None \<Rightarrow> (internal_error (KeyError crypto_code), st)
           | Some crypto_name \<Rightarrow>
               let descr = (case req_description body of
                              None \<Rightarrow> ''Payment in '' @ crypto_name
                            | Some d \<Rightarrow> d)
               in
               case validate_payment_amount E (JFloat amount_f) currency_code of
                 Inl e \<Rightarrow> (internal_error e, st)
               | Inr valid \<Rightarrow>
               if \<not> valid
               then ((ErrorMessage ''Invalid amount'', 400), st)
               else if map_of (SUPPORTED_CRYPTOS E) crypto_code = None
               then ((ErrorMessage ''Unsupported cryptocurrency'', 400), st)
               else if currency_code \<notin> set (SUPPORTED_CURRENCIES E)
               then ((ErrorMessage ''Unsupported currency'', 400), st)
               else
                 let (exchange_rates, cache') =
                       get_exchange_rates (fetched_rates E) (now E) (rate_cache st);
                     st1 = st\<lparr>rate_cache := cache'\<rparr>;
                     rate = rate_for exchange_rates currency_code;
                     call = charge_arguments E amount_f currency_code crypto_code email descr rate;
                     st2 = st1\<lparr>provider_calls := provider_calls st1 @ [call]\<rparr>
                 in
                 (case charge_create E call of
                    Inl e \<Rightarrow> (internal_error e, st2)
                  | Inr ch \<Rightarrow>
                      (case qr_png_hex E (hosted_url ch) of
                         Inl e \<Rightarrow> (internal_error e, st2)
                       | Inr qr_code \<Rightarrow>
                           let payment_info =
                                 new_payment_info E ch amount_f currency_code crypto_code
                                   email descr rate;
                               history = load_payment_history (history_file st2);
                               (saved, d) =
                                 save_payment_history (history @ [dict_of payment_info])
                                   (history_file st2)
                           in
                           (case jsonify (PaymentCreated (hosted_url ch) qr_code payment_info) of
                              Inl e \<Rightarrow> (internal_error e, st2\<lparr>history_file := d\<rparr>)
                            | Inr rendered \<Rightarrow> ((rendered, 200), st2\<lparr>history_file := d\<rparr>))))))"

section \<open>The decorated route\<close>

text \<open>
  \<^verbatim>\<open>/create_payment\<close> is the body above behind \<^verbatim>\<open>@rate_limit\<close>: the body runs when
  the limiter admits the request, the limiter answers 429 itself when it does not, and an
  exception of the limiter leaves the route (none of the body's \<^verbatim>\<open>try\<close> blocks
  encloses it). The limiter's clock and the body's are one reading here.
\<close>

definition create_payment_route ::
  "env \<Rightarrow> string \<Rightarrow> payment_request \<Rightarrow> ip_requests \<times> state \<Rightarrow>
     exn + (response \<times> ip_requests \<times> state)" where
  "create_payment_route E ip body ts =
     (case rate_limit ip (now E) (fst ts) of
        Inl e \<Rightarrow> Inl e
      | Inr (Limited, table') \<Rightarrow> Inr ((RateLimitExceeded, 429), table', snd ts)
      | Inr (Admitted, table') \<Rightarrow>
          Inr (fst (create_payment E body (snd ts)), table', snd (create_payment E body (snd ts))))"

section \<open>Reconciliation\<close>

text \<open>
  The loop of lines 318 to 322: the first entry whose id is the charge's gets the status
  \<^verbatim>\<open>'completed'\<close> and the key \<^verbatim>\<open>completed_at\<close>, and the loop stops.
\<close>

fun confirm :: "string \<Rightarrow> instant \<Rightarrow> payment list \<Rightarrow> payment list" where
  "confirm cid t [] = []"
| "confirm cid t (p # ps) =
     (if id' p = cid then p\<lparr>status := COMPLETED, completed_at := Some t\<rparr> # ps
      else p # confirm cid t ps)"

text \<open>
  The handler \<^verbatim>\<open>webhook\<close>, lines 303 to 330. The route has no decorator: neither the
  rate limiter nor the token check runs before it.
\<close>

definition webhook :: "env \<Rightarrow> webhook_request \<Rightarrow> state \<Rightarrow> response \<times> state" where
  "webhook E request st =
     (case construct_event E (data request) (signature_header request)
             (COINBASE_WEBHOOK_SECRET E) of
        Inl e \<Rightarrow> (internal_error e, st)
      | Inr ev \<Rightarrow>
          if event_type ev = ''charge:confirmed'' then
            let history = load_payment_history (history_file st);
                (saved, d) =
                  save_payment_history (confirm (event_charge_id ev) (now E) history)
                    (history_file st)
            in ((Success, 200), st\<lparr>history_file := d\<rparr>)
          else ((Success, 200), st))"

section \<open>Concrete surroundings\<close>

text \<open>
  A small catalogue, a stub provider that always issues the charge \<^verbatim>\<open>ch_1\<close>, a stub
  renderer, and a stub verifier that accepts the signature \<^verbatim>\<open>valid\<close> and reads the
  body as the id of a confirmed charge. The two string functions are given on the
  strings used below: \<^verbatim>\<open>float('25.00')\<close> is 25.0, and the MD5 digest of
  \<^verbatim>\<open>alice@example.com\<close> is the one written here.
\<close>

definition stub_env :: env where
  "stub_env =
     \<lparr>SUPPORTED_CRYPTOS = [(''BTC'', ''Bitcoin''), (''ETH'', ''Ethereum'')],
      SUPPORTED_CURRENCIES = [''USD'', ''EUR''],
      float_of_str = (\<lambda>s. if s = ''25.00'' then Some (Fin 25) else None),
      md5_hexdigest = (\<lambda>s. if s = ''alice@example.com''
                             then ''c160f8cc69a4f0bf2b0362752353d060''
                             else ''d41d8cd98f00b204e9800998ecf8427e''),
      now = 1700000000,
      fetched_rates = Inl (External ''rate provider unavailable''),
      charge_create = (\<lambda>call. Inr \<lparr>charge_id = ''ch_1'', hosted_url = ''https://pay.example/ch_1''\<rparr>),
      qr_png_hex = (\<lambda>url. Inr ''89504e47''),
      COINBASE_WEBHOOK_SECRET = Some ''secret'',
      construct_event =
        (\<lambda>raw_body sig secret.
           if sig = Some ''valid''
           then Inr \<lparr>event_type = ''charge:confirmed'', event_charge_id = raw_body\<rparr>
           else Inl (External ''SignatureVerificationError''))\<rparr>"

definition stub_request :: payment_request where
  "stub_request =
     \<lparr>req_amount = Some (JFloat (Fin 25)), req_currency = Some ''USD'', req_crypto = Some ''BTC'',
      req_customer_email = Some ''alice@example.com'', req_description = None\<rparr>"

definition fresh_state :: state where
  "fresh_state =
     \<lparr>rate_cache = exchange_rate_cache,
      history_file = \<lparr>payment_history_json = Missing, writable = True\<rparr>,
      provider_calls = []\<rparr>"

text \<open>The history after the request above has been served: one pending record.\<close>

definition pending_ch_1 :: payment where
  "pending_ch_1 =
     dict_of (new_payment_info stub_env
       \<lparr>charge_id = ''ch_1'', hosted_url = ''https://pay.example/ch_1''\<rparr>
       (Fin 25) ''USD'' ''BTC'' (Some ''alice@example.com'') ''Payment in Bitcoin'' 1)"

definition one_pending :: state where
  "one_pending =
     fresh_state\<lparr>history_file := \<lparr>payment_history_json = Stored [pending_ch_1], writable = True\<rparr>\<rparr>"

text \<open>The same state with a history file that cannot be opened for writing.\<close>

definition read_only_state :: state where
  "read_only_state =
     fresh_state\<lparr>history_file := \<lparr>payment_history_json = Missing, writable = False\<rparr>\<rparr>"

text \<open>A cache holding a snapshot taken 10000 seconds before the stub's clock.\<close>

definition stale_cache :: cache where
  "stale_cache = \<lparr>rates = [(''EUR'', 9 / 10)], timestamp = 1699990000\<rparr>"

text \<open>Three notifications: a confirmation of \<^verbatim>\<open>ch_1\<close>, one of a charge the history does
  not hold, and one of \<^verbatim>\<open>ch_1\<close> whose signature does not verify.\<close>

definition confirm_ch_1 :: webhook_request where
  "confirm_ch_1 = \<lparr>data = ''ch_1'', signature_header = Some ''valid''\<rparr>"

definition confirm_unknown :: webhook_request where
  "confirm_unknown = \<lparr>data = ''ch_404'', signature_header = Some ''valid''\<rparr>"

definition forged_ch_1 :: webhook_request where
  "forged_ch_1 = \<lparr>data = ''ch_1'', signature_header = Some ''forged''\<rparr>"


section \<open>Facts about the parts\<close>

lemma clean_up_nonempty: "table \<noteq> [] \<Longrightarrow> clean_up t table = Inl TypeError"
  by (cases table) (auto simp: float_sub_list_def)

lemma rate_limit_nonempty: "table \<noteq> [] \<Longrightarrow> rate_limit ip t table = Inl TypeError"
  by (simp add: rate_limit_def clean_up_nonempty)

lemma rate_limit_first: "rate_limit ip t [] = Inr (Admitted, [(ip, [t])])"
  by (simp add: rate_limit_def)

lemma rate_limit_run_nonempty:
  "table \<noteq> [] \<Longrightarrow> rate_limit_run ip ts table = map (\<lambda>t. Inl TypeError) ts"
  by (induction ts) (simp_all add: rate_limit_nonempty)

lemma rate_limit_run_from_empty:
  "rate_limit_run ip (t # ts) [] = Inr Admitted # map (\<lambda>t. Inl TypeError) ts"
  by (simp add: rate_limit_first rate_limit_run_nonempty)

subsection \<open>The conversion of an int to a float\<close>

lemma float_zero: "float_of_int_py 0 = Inr (Fin 0)"
  by (simp add: float_of_int_py_def round_half_even_def)

lemma float_exact:
  assumes "\<bar>n\<bar> < 2 ^ 53"
  shows "float_of_int_py n = Inr (Fin (real_of_int n))"
proof -
  have "bitlen \<bar>n\<bar> \<le> 53"
    using assms by (simp add: bitlen_le_iff_power)
  then have s: "nat (bitlen (int (nat \<bar>n\<bar>))) - 53 = 0"
    by simp
  have small: "nat \<bar>n\<bar> < 2 ^ 1024"
  proof -
    have "\<bar>n\<bar> < 2 ^ 1024"
      using assms by (rule less_trans) simp
    then show ?thesis by (simp add: nat_less_iff)
  qed
  show ?thesis
    unfolding float_of_int_py_def Let_def s
    using small by (auto simp: round_half_even_def not_le)
qed

lemma round_half_even_ge: "m div 2 ^ s \<le> round_half_even m s"
  by (simp add: round_half_even_def Let_def)

lemma float_overflow:
  assumes "2 ^ 1024 \<le> \<bar>n\<bar>"
  shows "float_of_int_py n = Inl OverflowError"
proof -
  define m where "m = nat \<bar>n\<bar>"
  define b where "b = nat (bitlen (int m))"
  define s where "s = b - 53"
  have m: "2 ^ 1024 \<le> int m"
    using assms by (simp add: m_def)
  then have pos: "0 < int m"
    by (rule less_le_trans [rotated]) simp
  have "(1025::int) \<le> bitlen (int m)"
    using m by (simp add: bitlen_ge_iff_power)
  then have b: "1025 \<le> b"
    by (simp add: b_def)
  from bitlen_bounds [OF pos] have "2 ^ nat (bitlen (int m) - 1) \<le> int m"
    by simp
  moreover have "nat (bitlen (int m) - 1) = b - 1"
    by (simp add: b_def nat_diff_distrib')
  ultimately have "(2::int) ^ (b - 1) \<le> int m"
    by simp
  then have low: "(2::nat) ^ (b - 1) \<le> m"
    by (metis of_nat_le_iff of_nat_numeral of_nat_power)
  have split: "b - 1 = 52 + s"
    using b by (simp add: s_def)
  have "(2::nat) ^ 52 = 2 ^ (52 + s) div 2 ^ s"
    by (simp add: power_add)
  also have "\<dots> \<le> m div 2 ^ s"
    using low by (simp only: split div_le_mono)
  also have "\<dots> \<le> round_half_even m s"
    by (rule round_half_even_ge)
  finally have "(2::nat) ^ 52 * 2 ^ s \<le> round_half_even m s * 2 ^ s"
    by (rule mult_le_mono1)
  moreover have "(2::nat) ^ 1024 \<le> 2 ^ 52 * 2 ^ s"
  proof -
    have "1024 \<le> 52 + s" using b by (simp add: s_def)
    then have "(2::nat) ^ 1024 \<le> 2 ^ (52 + s)"
      by (rule power_increasing) simp
    then show ?thesis by (simp only: power_add)
  qed
  ultimately have "(2::nat) ^ 1024 \<le> round_half_even m s * 2 ^ s"
    by (rule le_trans [rotated])
  then show ?thesis
    unfolding float_of_int_py_def Let_def
    by (simp only: m_def [symmetric] b_def [symmetric] s_def [symmetric] if_True)
qed

lemma float_huge: "float_py E (JInt (10 ^ 309)) = Inl OverflowError"
proof -
  have "(2::int) ^ 1024 \<le> \<bar>10 ^ 309\<bar>"
    by simp
  then show ?thesis
    by (simp only: float_py.simps float_overflow)
qed

subsection \<open>The history file and the handlers\<close>

lemma save_load:
  "load_payment_history (snd (save_payment_history h d)) =
     (if writable d then h else load_payment_history d)"
  by (simp add: save_payment_history_def load_payment_history_def)

lemma save_unwritable: "\<not> writable d \<Longrightarrow> snd (save_payment_history h d) = d"
  by (simp add: save_payment_history_def)

lemma save_writable: "writable (snd (save_payment_history h d)) = writable d"
  by (simp add: save_payment_history_def)

lemma validate_float: "validate_payment_amount E (JFloat a) c = Inr (\<not> le_zero a)"
  by (simp add: validate_payment_amount_def)

lemma gt_zero_not_le_zero: "gt_zero a \<Longrightarrow> \<not> le_zero a"
  by (cases a) auto

text \<open>
  The path of a request that passes the three checks, as one equation. When the provider
  and the renderer succeed, the record is saved and the rendering of the success value
  fails: the answer is the failure of status 500.
\<close>

lemma create_payment_valid:
  assumes "amount_of E body = Inr a" and "\<not> le_zero a"
    and "map_of (SUPPORTED_CRYPTOS E) (crypto_of body) = Some name"
    and "currency_of body \<in> set (SUPPORTED_CURRENCIES E)"
  shows "create_payment E body st =
     (let descr = (case req_description body of None \<Rightarrow> ''Payment in '' @ name | Some d \<Rightarrow> d);
          gr = get_exchange_rates (fetched_rates E) (now E) (rate_cache st);
          rate = rate_for (fst gr) (currency_of body);
          call = charge_arguments E a (currency_of body) (crypto_of body)
                   (req_customer_email body) descr rate;
          st2 = st\<lparr>rate_cache := snd gr, provider_calls := provider_calls st @ [call]\<rparr>
      in case charge_create E call of
           Inl e \<Rightarrow> (internal_error e, st2)
         | Inr ch \<Rightarrow>
             (case qr_png_hex E (hosted_url ch) of
                Inl e \<Rightarrow> (internal_error e, st2)
              | Inr qr_code \<Rightarrow>
                  let p = new_payment_info E ch a (currency_of body) (crypto_of body)
                            (req_customer_email body) descr rate
                  in (internal_error TypeError,
                      st2\<lparr>history_file :=
                            snd (save_payment_history
                                   (load_payment_history (history_file st) @ [dict_of p])
                                   (history_file st))\<rparr>)))"
  using assms
  by (simp add: create_payment_def validate_float Let_def split_beta
           split: sum.splits)

text \<open>Every other request leaves the state as it was.\<close>

lemma create_payment_invalid:
  assumes "\<not> (\<exists>a name. amount_of E body = Inr a \<and> \<not> le_zero a
              \<and> map_of (SUPPORTED_CRYPTOS E) (crypto_of body) = Some name
              \<and> currency_of body \<in> set (SUPPORTED_CURRENCIES E))"
  shows "snd (create_payment E body st) = st"
  using assms
  by (auto simp: create_payment_def validate_float Let_def internal_error_def
           split: sum.splits option.splits)

text \<open>The same path, read off: the call made, the answer, and the history left.\<close>

lemma create_payment_valid_call:
  assumes "amount_of E body = Inr a" and "\<not> le_zero a"
    and "map_of (SUPPORTED_CRYPTOS E) (crypto_of body) = Some name"
    and "currency_of body \<in> set (SUPPORTED_CURRENCIES E)"
  shows "provider_calls (snd (create_payment E body st)) =
           provider_calls st @
             [charge_arguments E a (currency_of body) (crypto_of body) (req_customer_email body)
                (case req_description body of None \<Rightarrow> ''Payment in '' @ name | Some d \<Rightarrow> d)
                (rate_for (fst (get_exchange_rates (fetched_rates E) (now E) (rate_cache st)))
                   (currency_of body))]"
  unfolding create_payment_valid [OF assms] Let_def by (simp split: sum.splits)

lemma create_payment_valid_refused:
  assumes "amount_of E body = Inr a" and "\<not> le_zero a"
    and "map_of (SUPPORTED_CRYPTOS E) (crypto_of body) = Some name"
    and "currency_of body \<in> set (SUPPORTED_CURRENCIES E)"
    and "charge_create E
           (charge_arguments E a (currency_of body) (crypto_of body) (req_customer_email body)
              (case req_description body of None \<Rightarrow> ''Payment in '' @ name | Some d \<Rightarrow> d)
              (rate_for (fst (get_exchange_rates (fetched_rates E) (now E) (rate_cache st)))
                 (currency_of body))) = Inl e"
  shows "fst (create_payment E body st) = (ErrorOf e, 500) \<and>
         history_file (snd (create_payment E body st)) = history_file st"
  unfolding create_payment_valid [OF assms(1-4)] Let_def
  using assms(5) by (simp add: internal_error_def)

lemma create_payment_valid_unrendered:
  assumes "amount_of E body = Inr a" and "\<not> le_zero a"
    and "map_of (SUPPORTED_CRYPTOS E) (crypto_of body) = Some name"
    and "currency_of body \<in> set (SUPPORTED_CURRENCIES E)"
    and "charge_create E
           (charge_arguments E a (currency_of body) (crypto_of body) (req_customer_email body)
              (case req_description body of None \<Rightarrow> ''Payment in '' @ name | Some d \<Rightarrow> d)
              (rate_for (fst (get_exchange_rates (fetched_rates E) (now E) (rate_cache st)))
                 (currency_of body))) = Inr ch"
    and "qr_png_hex E (hosted_url ch) = Inl e"
  shows "fst (create_payment E body st) = (ErrorOf e, 500) \<and>
         history_file (snd (create_payment E body st)) = history_file st"
  unfolding create_payment_valid [OF assms(1-4)] Let_def
  using assms(5,6) by (simp add: internal_error_def)

lemma create_payment_valid_saved:
  assumes "amount_of E body = Inr a" and "\<not> le_zero a"
    and "map_of (SUPPORTED_CRYPTOS E) (crypto_of body) = Some name"
    and "currency_of body \<in> set (SUPPORTED_CURRENCIES E)"
    and "charge_create E
           (charge_arguments E a (currency_of body) (crypto_of body) (req_customer_email body)
              (case req_description body of None \<Rightarrow> ''Payment in '' @ name | Some d \<Rightarrow> d)
              (rate_for (fst (get_exchange_rates (fetched_rates E) (now E) (rate_cache st)))
                 (currency_of body))) = Inr ch"
    and "qr_png_hex E (hosted_url ch) = Inr qr_code"
  shows "fst (create_payment E body st) = (ErrorOf TypeError, 500) \<and>
         load_payment_history (history_file (snd (create_payment E body st))) =
           (if writable (history_file st)
            then load_payment_history (history_file st) @
                   [dict_of (new_payment_info E ch a (currency_of body) (crypto_of body)
                      (req_customer_email body)
                      (case req_description body of None \<Rightarrow> ''Payment in '' @ name | Some d \<Rightarrow> d)
                      (rate_for (fst (get_exchange_rates (fetched_rates E) (now E) (rate_cache st)))
                         (currency_of body)))]
            else load_payment_history (history_file st))"
  unfolding create_payment_valid [OF assms(1-4)] Let_def
  using assms(5,6) by (simp add: internal_error_def save_load)

text \<open>All of it at once, with the call and the record named.\<close>

lemma create_payment_valid_summary:
  assumes "amount_of E body = Inr a" and "\<not> le_zero a"
    and "map_of (SUPPORTED_CRYPTOS E) (crypto_of body) = Some name"
    and "currency_of body \<in> set (SUPPORTED_CURRENCIES E)"
  shows "\<exists>call descr rate.
     descr = (case req_description body of None \<Rightarrow> ''Payment in '' @ name | Some d \<Rightarrow> d) \<and>
     rate = rate_for (fst (get_exchange_rates (fetched_rates E) (now E) (rate_cache st)))
              (currency_of body) \<and>
     call = charge_arguments E a (currency_of body) (crypto_of body) (req_customer_email body)
              descr rate \<and>
     provider_calls (snd (create_payment E body st)) = provider_calls st @ [call] \<and>
     (case charge_create E call of
        Inl e \<Rightarrow>
          fst (create_payment E body st) = (ErrorOf e, 500) \<and>
          history_file (snd (create_payment E body st)) = history_file st
      | Inr ch \<Rightarrow>
          (case qr_png_hex E (hosted_url ch) of
             Inl e \<Rightarrow>
               fst (create_payment E body st) = (ErrorOf e, 500) \<and>
               history_file (snd (create_payment E body st)) = history_file st
           | Inr qr_code \<Rightarrow>
               fst (create_payment E body st) = (ErrorOf TypeError, 500) \<and>
               load_payment_history (history_file (snd (create_payment E body st))) =
                 (if writable (history_file st)
                  then load_payment_history (history_file st) @
                         [dict_of (new_payment_info E ch a (currency_of body) (crypto_of body)
                            (req_customer_email body) descr rate)]
                  else load_payment_history (history_file st))))"
proof -
  let ?descr = "case req_description body of None \<Rightarrow> ''Payment in '' @ name | Some d \<Rightarrow> d"
  let ?rate = "rate_for (fst (get_exchange_rates (fetched_rates E) (now E) (rate_cache st)))
                 (currency_of body)"
  let ?call = "charge_arguments E a (currency_of body) (crypto_of body) (req_customer_email body)
                 ?descr ?rate"
  have "case charge_create E ?call of
        Inl e \<Rightarrow>
          fst (create_payment E body st) = (ErrorOf e, 500) \<and>
          history_file (snd (create_payment E body st)) = history_file st
      | Inr ch \<Rightarrow>
          (case qr_png_hex E (hosted_url ch) of
             Inl e \<Rightarrow>
               fst (create_payment E body st) = (ErrorOf e, 500) \<and>
               history_file (snd (create_payment E body st)) = history_file st
           | Inr qr_code \<Rightarrow>
               fst (create_payment E body st) = (ErrorOf TypeError, 500) \<and>
               load_payment_history (history_file (snd (create_payment E body st))) =
                 (if writable (history_file st)
                  then load_payment_history (history_file st) @
                         [dict_of (new_payment_info E ch a (currency_of body) (crypto_of body)
                            (req_customer_email body) ?descr ?rate)]
                  else load_payment_history (history_file st)))"
  proof (cases "charge_create E ?call")
    case (Inl e)
    from create_payment_valid_refused [OF assms Inl] Inl show ?thesis by simp
  next
    case (Inr ch)
    show ?thesis
    proof (cases "qr_png_hex E (hosted_url ch)")
      case (Inl e)
      from create_payment_valid_unrendered [OF assms Inr Inl] Inr Inl show ?thesis by simp
    next
      case qr: (Inr qr_code)
      from create_payment_valid_saved [OF assms Inr qr] Inr qr show ?thesis by simp
    qed
  qed
  with create_payment_valid_call [OF assms, of st] show ?thesis by blast
qed

lemma dict_of_fields:
  "id' (dict_of p) = id' p" "amount (dict_of p) = amount p" "currency (dict_of p) = currency p"
  "crypto (dict_of p) = crypto p" "status (dict_of p) = status p"
  "payment_url (dict_of p) = payment_url p" "exchange_rate (dict_of p) = exchange_rate p"
  "completed_at (dict_of p) = None"
  by (simp_all add: dict_of_def)

subsection \<open>The stub surroundings, evaluated\<close>

lemma pos25: "gt_zero (Fin 25)"
  by simp

lemma valid25: "\<not> le_zero (Fin 25)"
  by simp

lemma stub_amount: "amount_of stub_env stub_request = Inr (Fin 25)"
  by (simp add: stub_env_def stub_request_def amount_of_def)

lemma stub_currency: "currency_of stub_request \<in> set (SUPPORTED_CURRENCIES stub_env)"
  by (simp add: stub_env_def stub_request_def currency_of_def)

lemma stub_crypto: "map_of (SUPPORTED_CRYPTOS stub_env) (crypto_of stub_request) = Some ''Bitcoin''"
  by (simp add: stub_env_def stub_request_def crypto_of_def)

lemma stub_charge:
  "charge_create stub_env call = Inr \<lparr>charge_id = ''ch_1'', hosted_url = ''https://pay.example/ch_1''\<rparr>"
  by (simp add: stub_env_def)

lemma stub_qr: "qr_png_hex stub_env url = Inr ''89504e47''"
  by (simp add: stub_env_def)

lemma fresh_simps:
  "provider_calls fresh_state = []"
  "writable (history_file fresh_state) = True"
  "load_payment_history (history_file fresh_state) = []"
  by (simp_all add: fresh_state_def load_payment_history_def)

lemma stub_create:
  "create_payment stub_env stub_request st =
     (let gr = get_exchange_rates (fetched_rates stub_env) (now stub_env) (rate_cache st);
          rate = rate_for (fst gr) ''USD'';
          call = charge_arguments stub_env (Fin 25) ''USD'' ''BTC'' (Some ''alice@example.com'')
                   ''Payment in Bitcoin'' rate;
          p = new_payment_info stub_env
                \<lparr>charge_id = ''ch_1'', hosted_url = ''https://pay.example/ch_1''\<rparr>
                (Fin 25) ''USD'' ''BTC'' (Some ''alice@example.com'') ''Payment in Bitcoin'' rate
      in ((ErrorOf TypeError, 500),
          st\<lparr>rate_cache := snd gr, provider_calls := provider_calls st @ [call],
               history_file :=
                 snd (save_payment_history (load_payment_history (history_file st) @ [dict_of p])
                        (history_file st))\<rparr>))"
proof -
  from create_payment_valid [OF stub_amount valid25 stub_crypto stub_currency, of st]
  show ?thesis
    by (simp add: Let_def stub_charge stub_qr internal_error_def)
       (simp add: stub_request_def currency_of_def crypto_of_def)
qed

lemma create_payment_route_first:
  "create_payment_route E ip body ([], st) =
     Inr (fst (create_payment E body st), [(ip, [now E])], snd (create_payment E body st))"
  by (simp add: create_payment_route_def rate_limit_first)

lemma create_payment_route_later:
  "table \<noteq> [] \<Longrightarrow> create_payment_route E ip body (table, st) = Inl TypeError"
  by (simp add: create_payment_route_def rate_limit_nonempty)


lemma create_payment_not_a_number:
  "amount_of E body = Inl e \<Longrightarrow> create_payment E body st = ((ErrorOf e, 500), st)"
  by (simp add: create_payment_def internal_error_def)

lemma create_payment_huge:
  "create_payment E (body\<lparr>req_amount := Some (JInt (10 ^ 309))\<rparr>) st =
     ((ErrorOf OverflowError, 500), st)"
proof (rule create_payment_not_a_number)
  have "amount_of E (body\<lparr>req_amount := Some (JInt (10 ^ 309))\<rparr>) =
          float_py E (JInt (10 ^ 309))"
    by (simp add: amount_of_def del: float_py.simps)
  then show "amount_of E (body\<lparr>req_amount := Some (JInt (10 ^ 309))\<rparr>) = Inl OverflowError"
    by (simp only: float_huge)
qed


lemma create_payment_not_positive:
  "amount_of E body = Inr a \<Longrightarrow> le_zero a \<Longrightarrow>
   map_of (SUPPORTED_CRYPTOS E) (crypto_of body) = Some name \<Longrightarrow>
   create_payment E body st = ((ErrorMessage ''Invalid amount'', 400), st)"
  by (simp add: create_payment_def validate_float)


lemma create_payment_calls:
  "provider_calls (snd (create_payment E body st)) = provider_calls st \<or>
   (\<exists>a name. amount_of E body = Inr a \<and> \<not> le_zero a \<and>
      map_of (SUPPORTED_CRYPTOS E) (crypto_of body) = Some name \<and>
      provider_calls (snd (create_payment E body st)) =
        provider_calls st @
          [charge_arguments E a (currency_of body) (crypto_of body) (req_customer_email body)
             (case req_description body of None \<Rightarrow> ''Payment in '' @ name | Some d \<Rightarrow> d)
             (rate_for (fst (get_exchange_rates (fetched_rates E) (now E) (rate_cache st)))
                (currency_of body))])"
proof (cases "\<exists>a name. amount_of E body = Inr a \<and> \<not> le_zero a
              \<and> map_of (SUPPORTED_CRYPTOS E) (crypto_of body) = Some name
              \<and> currency_of body \<in> set (SUPPORTED_CURRENCIES E)")
  case False
  from create_payment_invalid [OF this] show ?thesis by simp
next
  case True
  then obtain a name where v: "amount_of E body = Inr a" "\<not> le_zero a"
      "map_of (SUPPORTED_CRYPTOS E) (crypto_of body) = Some name"
      "currency_of body \<in> set (SUPPORTED_CURRENCIES E)"
    by blast
  have "provider_calls (snd (create_payment E body st)) =
        provider_calls st @
          [charge_arguments E a (currency_of body) (crypto_of body) (req_customer_email body)
             (case req_description body of None \<Rightarrow> ''Payment in '' @ name | Some d \<Rightarrow> d)
             (rate_for (fst (get_exchange_rates (fetched_rates E) (now E) (rate_cache st)))
                (currency_of body))]"
    unfolding create_payment_valid [OF v] Let_def by (simp split: sum.splits)
  with v show ?thesis by blast
qed

lemma confirm_absent: "cid \<notin> id' ` set h \<Longrightarrow> confirm cid t h = h"
  by (induction h) auto

lemma confirm_again: "confirm cid t2 (confirm cid t1 h) = confirm cid t2 h"
  by (induction h) auto

lemma confirm_find:
  "find (\<lambda>q. id' q = cid) h = Some p \<Longrightarrow>
   find (\<lambda>q. id' q = cid) (confirm cid t h) = Some (p\<lparr>status := COMPLETED, completed_at := Some t\<rparr>)"
  by (induction h) (auto split: if_splits)

lemma confirm_exchange_rate: "map exchange_rate (confirm cid t h) = map exchange_rate h"
  by (induction h) auto

lemma webhook_rejected:
  "construct_event E (data request) (signature_header request) (COINBASE_WEBHOOK_SECRET E) = Inl e
   \<Longrightarrow> webhook E request st = ((ErrorOf e, 500), st)"
  by (simp add: webhook_def internal_error_def)

lemma webhook_other_event:
  "construct_event E (data request) (signature_header request) (COINBASE_WEBHOOK_SECRET E) = Inr ev
   \<Longrightarrow> event_type ev \<noteq> ''charge:confirmed'' \<Longrightarrow> webhook E request st = ((Success, 200), st)"
  by (simp add: webhook_def)

lemma webhook_confirmed:
  "construct_event E (data request) (signature_header request) (COINBASE_WEBHOOK_SECRET E) = Inr ev
   \<Longrightarrow> event_type ev = ''charge:confirmed'' \<Longrightarrow>
   webhook E request st =
     ((Success, 200),
      st\<lparr>history_file :=
            snd (save_payment_history
                   (confirm (event_charge_id ev) (now E) (load_payment_history (history_file st)))
                   (history_file st))\<rparr>)"
  by (simp add: webhook_def split_beta)

lemma stub_event:
  "construct_event (stub_env\<lparr>now := t\<rparr>) raw_body (Some ''valid'') secret =
     Inr \<lparr>event_type = ''charge:confirmed'', event_charge_id = raw_body\<rparr>"
  "construct_event stub_env raw_body (Some ''valid'') secret =
     Inr \<lparr>event_type = ''charge:confirmed'', event_charge_id = raw_body\<rparr>"
  "construct_event stub_env raw_body (Some ''forged'') secret =
     Inl (External ''SignatureVerificationError'')"
  by (simp_all add: stub_env_def)

lemma one_pending_history:
  "load_payment_history (history_file one_pending) = [pending_ch_1]"
  "writable (history_file one_pending)"
  "id' pending_ch_1 = ''ch_1''"
  "status pending_ch_1 = PENDING"
  "completed_at pending_ch_1 = None"
  by (simp_all add: one_pending_def fresh_state_def load_payment_history_def pending_ch_1_def
        dict_of_def new_payment_info_def)

lemma stub_webhook:
  "webhook (stub_env\<lparr>now := t\<rparr>) \<lparr>data = cid, signature_header = Some ''valid''\<rparr> st =
     ((Success, 200),
      st\<lparr>history_file :=
            snd (save_payment_history (confirm cid t (load_payment_history (history_file st)))
                   (history_file st))\<rparr>)"
  using webhook_confirmed [of "stub_env\<lparr>now := t\<rparr>" "\<lparr>data = cid, signature_header = Some ''valid''\<rparr>"
      "\<lparr>event_type = ''charge:confirmed'', event_charge_id = cid\<rparr>" st]
  by (simp add: stub_event)

lemma webhook_exchange_rate:
  "map exchange_rate (load_payment_history (history_file (snd (webhook E request st)))) =
   map exchange_rate (load_payment_history (history_file st))"
  by (simp add: webhook_def split_beta save_load confirm_exchange_rate split: sum.splits)

lemma stub_rate:
  "rate_for (fst (get_exchange_rates (fetched_rates stub_env) (now stub_env) (rate_cache fresh_state))) c = 1"
  "map_of (fst (get_exchange_rates (fetched_rates stub_env) (now stub_env) (rate_cache fresh_state))) c = None"
  by (simp_all add: rate_for_def get_exchange_rates_def refresh_def stub_env_def fresh_state_def
        exchange_rate_cache_def CACHE_DURATION_def)

lemma stub_calls:
  "provider_calls (snd (create_payment stub_env stub_request fresh_state)) =
     [charge_arguments stub_env (Fin 25) ''USD'' ''BTC'' (Some ''alice@example.com'')
        ''Payment in Bitcoin'' 1]"
  unfolding stub_create Let_def by (simp add: stub_rate fresh_simps)

text \<open>NaN is not below zero: it passes validation and the provider is called.\<close>

lemma create_payment_nan:
  "amount_of E body = Inr NaN \<Longrightarrow>
   map_of (SUPPORTED_CRYPTOS E) (crypto_of body) = Some name \<Longrightarrow>
   currency_of body \<in> set (SUPPORTED_CURRENCIES E) \<Longrightarrow>
   length (provider_calls (snd (create_payment E body st))) = Suc (length (provider_calls st))"
  by (simp add: create_payment_valid_call)

text \<open>On a history file that cannot be written the record is lost and nothing says so.\<close>

lemma stub_unsaved:
  "fst (create_payment stub_env stub_request read_only_state) = (ErrorOf TypeError, 500) \<and>
   length (provider_calls (snd (create_payment stub_env stub_request read_only_state))) = 1 \<and>
   load_payment_history (history_file (snd (create_payment stub_env stub_request read_only_state))) = []"
  unfolding stub_create Let_def
  by (simp add: save_load) (simp add: read_only_state_def fresh_state_def load_payment_history_def)

section \<open>Reconciliation twice\<close>

text \<open>
  Claim C2, as the code has it. For a validly signed confirmation of a charge the history
  holds, on a history file that can be written: handling the notification at \<open>t1\<close> and
  again at \<open>t2\<close> leaves the state that handling it once at \<open>t2\<close> leaves. After the first
  call the record is \<open>COMPLETED\<close> with \<open>completed_at = t1\<close>; after the second it is
  \<open>COMPLETED\<close> with \<open>completed_at = t2\<close> and is otherwise as it was: the status and
  every other field stay, the completion instant is written again.
\<close>

theorem webhook_twice:
  assumes "construct_event E (data request) (signature_header request) (COINBASE_WEBHOOK_SECRET E) = Inr ev"
    and "event_type ev = ''charge:confirmed''"
    and "find (\<lambda>q. id' q = event_charge_id ev) (load_payment_history (history_file st)) = Some p"
    and "writable (history_file st)"
  shows "snd (webhook (E\<lparr>now := t2\<rparr>) request (snd (webhook (E\<lparr>now := t1\<rparr>) request st))) =
           snd (webhook (E\<lparr>now := t2\<rparr>) request st) \<and>
         find (\<lambda>q. id' q = event_charge_id ev)
           (load_payment_history (history_file (snd (webhook (E\<lparr>now := t1\<rparr>) request st)))) =
           Some (p\<lparr>status := COMPLETED, completed_at := Some t1\<rparr>) \<and>
         find (\<lambda>q. id' q = event_charge_id ev)
           (load_payment_history (history_file
              (snd (webhook (E\<lparr>now := t2\<rparr>) request (snd (webhook (E\<lparr>now := t1\<rparr>) request st)))))) =
           Some (p\<lparr>status := COMPLETED, completed_at := Some t2\<rparr>)"
proof -
  have ev: "construct_event (E\<lparr>now := t\<rparr>) (data request) (signature_header request)
              (COINBASE_WEBHOOK_SECRET (E\<lparr>now := t\<rparr>)) = Inr ev" for t
    using assms(1) by simp
  note w = webhook_confirmed [OF ev assms(2)]
  have first: "load_payment_history (history_file (snd (webhook (E\<lparr>now := t1\<rparr>) request st))) =
      confirm (event_charge_id ev) t1 (load_payment_history (history_file st))"
    unfolding w using assms(4) by (simp add: save_load)
  have twice: "snd (webhook (E\<lparr>now := t2\<rparr>) request (snd (webhook (E\<lparr>now := t1\<rparr>) request st))) =
           snd (webhook (E\<lparr>now := t2\<rparr>) request st)"
    unfolding w using assms(4)
    by (simp add: save_load confirm_again) (simp add: save_payment_history_def)
  have once: "load_payment_history (history_file (snd (webhook (E\<lparr>now := t2\<rparr>) request st))) =
      confirm (event_charge_id ev) t2 (load_payment_history (history_file st))"
    unfolding w using assms(4) by (simp add: save_load)
  show ?thesis
    unfolding twice unfolding first once
    using confirm_find [OF assms(3)] by simp
qed

text \<open>The pending record of \<^verbatim>\<open>ch_1\<close>, confirmed at 1000 and again at 2000.\<close>

theorem webhook_twice_witness:
  "construct_event stub_env (data confirm_ch_1) (signature_header confirm_ch_1)
     (COINBASE_WEBHOOK_SECRET stub_env) =
     Inr \<lparr>event_type = ''charge:confirmed'', event_charge_id = ''ch_1''\<rparr> \<and>
   find (\<lambda>q. id' q = ''ch_1'') (load_payment_history (history_file one_pending)) = Some pending_ch_1 \<and>
   writable (history_file one_pending) \<and>
   snd (webhook (stub_env\<lparr>now := 2000\<rparr>) confirm_ch_1
          (snd (webhook (stub_env\<lparr>now := 1000\<rparr>) confirm_ch_1 one_pending))) =
     snd (webhook (stub_env\<lparr>now := 2000\<rparr>) confirm_ch_1 one_pending) \<and>
   find (\<lambda>q. id' q = ''ch_1'')
     (load_payment_history (history_file
        (snd (webhook (stub_env\<lparr>now := 2000\<rparr>) confirm_ch_1
               (snd (webhook (stub_env\<lparr>now := 1000\<rparr>) confirm_ch_1 one_pending)))))) =
     Some (pending_ch_1\<lparr>status := COMPLETED, completed_at := Some 2000\<rparr>)"
proof -
  let ?ev = "\<lparr>event_type = ''charge:confirmed'', event_charge_id = ''ch_1''\<rparr>"
  have h1: "construct_event stub_env (data confirm_ch_1) (signature_header confirm_ch_1)
     (COINBASE_WEBHOOK_SECRET stub_env) = Inr ?ev"
    by (simp add: confirm_ch_1_def stub_event)
  have h2: "event_type ?ev = ''charge:confirmed''" by simp
  have h3: "find (\<lambda>q. id' q = event_charge_id ?ev) (load_payment_history (history_file one_pending)) =
              Some pending_ch_1"
    by (simp add: one_pending_history)
  have h4: "writable (history_file one_pending)"
    by (simp add: one_pending_history)
  note t = webhook_twice [OF h1 h2 h3 h4, of 2000 1000, unfolded event.select_convs]
  note c1 = t [THEN conjunct1] and c3 = t [THEN conjunct2, THEN conjunct2]
  from h1 h3 [unfolded event.select_convs] h4 c1 c3 show ?thesis
    by (intro conjI)
qed

text \<open>
  The claim as stated fails there: the second call changes the record, whose
  \<open>completed_at\<close> goes from 1000 to 2000.
\<close>

theorem webhook_twice_counterexample:
  "map completed_at (load_payment_history (history_file
      (snd (webhook (stub_env\<lparr>now := 1000\<rparr>) confirm_ch_1 one_pending)))) = [Some 1000] \<and>
   map completed_at (load_payment_history (history_file
      (snd (webhook (stub_env\<lparr>now := 2000\<rparr>) confirm_ch_1
             (snd (webhook (stub_env\<lparr>now := 1000\<rparr>) confirm_ch_1 one_pending)))))) = [Some 2000] \<and>
   snd (webhook (stub_env\<lparr>now := 2000\<rparr>) confirm_ch_1
          (snd (webhook (stub_env\<lparr>now := 1000\<rparr>) confirm_ch_1 one_pending))) \<noteq>
   snd (webhook (stub_env\<lparr>now := 1000\<rparr>) confirm_ch_1 one_pending)"
proof -
  have a: "load_payment_history (history_file
      (snd (webhook (stub_env\<lparr>now := 1000\<rparr>) confirm_ch_1 one_pending))) =
      [pending_ch_1\<lparr>status := COMPLETED, completed_at := Some 1000\<rparr>]"
    unfolding confirm_ch_1_def stub_webhook
    by (simp add: save_load one_pending_history)
  have b: "load_payment_history (history_file
      (snd (webhook (stub_env\<lparr>now := 2000\<rparr>) confirm_ch_1
             (snd (webhook (stub_env\<lparr>now := 1000\<rparr>) confirm_ch_1 one_pending))))) =
      [pending_ch_1\<lparr>status := COMPLETED, completed_at := Some 2000\<rparr>]"
    unfolding confirm_ch_1_def stub_webhook
    by (simp add: save_load save_writable one_pending_history)
  have "map completed_at (load_payment_history (history_file
      (snd (webhook (stub_env\<lparr>now := 2000\<rparr>) confirm_ch_1
             (snd (webhook (stub_env\<lparr>now := 1000\<rparr>) confirm_ch_1 one_pending)))))) \<noteq>
     map completed_at (load_payment_history (history_file
      (snd (webhook (stub_env\<lparr>now := 1000\<rparr>) confirm_ch_1 one_pending))))"
    unfolding a b by simp
  then have "snd (webhook (stub_env\<lparr>now := 2000\<rparr>) confirm_ch_1
          (snd (webhook (stub_env\<lparr>now := 1000\<rparr>) confirm_ch_1 one_pending))) \<noteq>
   snd (webhook (stub_env\<lparr>now := 1000\<rparr>) confirm_ch_1 one_pending)"
    by metis
  moreover note a b
  ultimately show ?thesis by simp
qed

section \<open>The metadata sent to the provider\<close>

text \<open>
  Claim C3, as the code has it. Whenever \<open>create_payment\<close> calls the provider, the
  metadata of the call holds the customer's address as the request gave it
  (\<open>customer_email\<close>), next to \<open>customer_id\<close>, which is the MD5 digest of the address
  or \<^verbatim>\<open>'anonymous'\<close> when the address is absent or empty, and next to the crypto, the
  currency and the exchange rate.
\<close>

theorem create_payment_metadata:
  assumes "provider_calls (snd (create_payment E body st)) = provider_calls st @ [call]"
  shows "meta_customer_email (charge_metadata call) = req_customer_email body \<and>
         meta_customer_id (charge_metadata call) =
           (case req_customer_email body of
              None \<Rightarrow> ''anonymous''
            | Some a \<Rightarrow> if a = [] then ''anonymous'' else md5_hexdigest E a) \<and>
         meta_crypto (charge_metadata call) = crypto_of body \<and>
         meta_currency (charge_metadata call) = currency_of body \<and>
         meta_exchange_rate (charge_metadata call) =
           rate_for (fst (get_exchange_rates (fetched_rates E) (now E) (rate_cache st)))
             (currency_of body)"
proof -
  from create_payment_calls [of E body st] assms
  obtain a descr where
    "call = charge_arguments E a (currency_of body) (crypto_of body) (req_customer_email body)
             descr
             (rate_for (fst (get_exchange_rates (fetched_rates E) (now E) (rate_cache st)))
                (currency_of body))"
    by auto
  then show ?thesis
    by (simp add: charge_arguments_def customer_id_of_def)
qed

theorem create_payment_metadata_witness:
  "provider_calls (snd (create_payment stub_env stub_request fresh_state)) =
     provider_calls fresh_state @
       [charge_arguments stub_env (Fin 25) ''USD'' ''BTC'' (Some ''alice@example.com'')
          ''Payment in Bitcoin'' 1] \<and>
   meta_customer_email (charge_metadata
     (charge_arguments stub_env (Fin 25) ''USD'' ''BTC'' (Some ''alice@example.com'')
        ''Payment in Bitcoin'' 1)) = Some ''alice@example.com'' \<and>
   meta_customer_id (charge_metadata
     (charge_arguments stub_env (Fin 25) ''USD'' ''BTC'' (Some ''alice@example.com'')
        ''Payment in Bitcoin'' 1)) = ''c160f8cc69a4f0bf2b0362752353d060''"
proof -
  have h: "provider_calls (snd (create_payment stub_env stub_request fresh_state)) =
     provider_calls fresh_state @
       [charge_arguments stub_env (Fin 25) ''USD'' ''BTC'' (Some ''alice@example.com'')
          ''Payment in Bitcoin'' 1]"
    by (simp add: stub_calls fresh_simps)
  have e: "req_customer_email stub_request = Some ''alice@example.com''"
    by (simp add: stub_request_def)
  have m: "md5_hexdigest stub_env ''alice@example.com'' = ''c160f8cc69a4f0bf2b0362752353d060''"
    by (simp add: stub_env_def)
  from create_payment_metadata [OF h] h show ?thesis
    by (simp add: e m)
qed

text \<open>The claim as stated fails: the one call of the stub request carries the raw address.\<close>

theorem create_payment_raw_email_counterexample:
  "map (\<lambda>call. meta_customer_email (charge_metadata call))
     (provider_calls (snd (create_payment stub_env stub_request fresh_state))) =
     [Some ''alice@example.com'']"
  by (simp add: stub_calls charge_arguments_def)

section \<open>A notification whose signature does not verify\<close>

text \<open>
  Claim C4, as the code has it. When \<^verbatim>\<open>Webhook.construct_event\<close> raises, the handler
  answers with the failure of status 500 carrying the exception's message and leaves the
  state as it was; when it returns an event the handler answers 200. Nothing but the
  verifier decides between the two: the route has no token check and no rate limiter.
\<close>

theorem webhook_signature_failure:
  "(case construct_event E (data request) (signature_header request) (COINBASE_WEBHOOK_SECRET E) of
      Inl e \<Rightarrow> webhook E request st = ((ErrorOf e, 500), st)
    | Inr ev \<Rightarrow> fst (webhook E request st) = (Success, 200))"
  by (simp add: webhook_def internal_error_def split_beta split: sum.splits)

theorem webhook_signature_failure_witness:
  "webhook stub_env forged_ch_1 one_pending =
     ((ErrorOf (External ''SignatureVerificationError''), 500), one_pending) \<and>
   fst (webhook stub_env confirm_ch_1 one_pending) = (Success, 200)"
  using webhook_signature_failure [of stub_env forged_ch_1 one_pending]
    webhook_signature_failure [of stub_env confirm_ch_1 one_pending]
  by (simp add: forged_ch_1_def confirm_ch_1_def stub_event)

text \<open>The claim as stated fails: the status reported for the forged notification is 500, not 401.\<close>

theorem webhook_signature_counterexample:
  "construct_event stub_env (data forged_ch_1) (signature_header forged_ch_1)
     (COINBASE_WEBHOOK_SECRET stub_env) = Inl (External ''SignatureVerificationError'') \<and>
   snd (fst (webhook stub_env forged_ch_1 one_pending)) = 500 \<and>
   snd (fst (webhook stub_env forged_ch_1 one_pending)) \<noteq> 401"
proof -
  have "construct_event stub_env (data forged_ch_1) (signature_header forged_ch_1)
     (COINBASE_WEBHOOK_SECRET stub_env) = Inl (External ''SignatureVerificationError'')"
    by (simp add: forged_ch_1_def stub_event)
  then show ?thesis by (simp add: webhook_rejected)
qed

section \<open>The rate limiter on a second request\<close>

text \<open>
  Claim C5 does not hold of the code. From the empty table the first request of a client
  is admitted and recorded. The second request, and every later one of any client, finds a
  non-empty table: the clean-up subtracts a list from a float and the decorator is left
  by a \<^verbatim>\<open>TypeError\<close> before the ceiling is looked at. No request after the first is
  admitted, and none is answered with 429.
\<close>

theorem rate_limit_second_request:
  "rate_limit_run ip [t1, t2] [] = [Inr Admitted, Inl TypeError]"
  by (simp add: rate_limit_first rate_limit_nonempty)

theorem rate_limit_second_request_witness:
  "rate_limit_run ''10.0.0.1'' [1000, 1001] [] = [Inr Admitted, Inl TypeError]"
  using rate_limit_second_request [of "''10.0.0.1''" 1000 1001] by simp

section \<open>An amount that is not a number\<close>

text \<open>
  Claim C6 does not hold of the code for an amount that \<^verbatim>\<open>float\<close> rejects. The
  conversion of line 202 raises before \<open>validate_payment_amount\<close> is reached, and the
  handler answers with the failure of status 500, not with the 400 of an invalid amount;
  \<open>validate_payment_amount\<close> itself would have returned \<open>False\<close> on the same value
  where the exception is a \<^verbatim>\<open>ValueError\<close> or a \<^verbatim>\<open>TypeError\<close>, the two it catches.
  The state is untouched: the provider is not called.
\<close>

theorem create_payment_non_numeric:
  assumes "float_py E v = Inl e"
  shows "create_payment E (body\<lparr>req_amount := Some v\<rparr>) st = ((ErrorOf e, 500), st) \<and>
         validate_payment_amount E v c =
           (if e = ValueError \<or> e = TypeError then Inr False else Inl e)"
proof -
  have "amount_of E (body\<lparr>req_amount := Some v\<rparr>) = Inl e"
    using assms by (simp add: amount_of_def)
  then show ?thesis
    using assms by (simp add: create_payment_not_a_number validate_payment_amount_def)
qed

theorem create_payment_non_numeric_witness:
  "float_py stub_env (JStr ''abc'') = Inl ValueError \<and>
   create_payment stub_env (stub_request\<lparr>req_amount := Some (JStr ''abc'')\<rparr>) fresh_state =
     ((ErrorOf ValueError, 500), fresh_state) \<and>
   validate_payment_amount stub_env (JStr ''abc'') ''USD'' = Inr False \<and>
   float_py stub_env JNull = Inl TypeError \<and>
   create_payment stub_env (stub_request\<lparr>req_amount := Some JNull\<rparr>) fresh_state =
     ((ErrorOf TypeError, 500), fresh_state) \<and>
   validate_payment_amount stub_env JNull ''USD'' = Inr False"
proof -
  have h1: "float_py stub_env (JStr ''abc'') = Inl ValueError"
    by (simp add: stub_env_def)
  have h2: "float_py stub_env JNull = Inl TypeError"
    by simp
  from create_payment_non_numeric [OF h1, of stub_request fresh_state "''USD''"]
    create_payment_non_numeric [OF h2, of stub_request fresh_state "''USD''"] h1 h2
  show ?thesis by simp
qed

section \<open>A failed refresh of the rates\<close>

text \<open>
  Claim C8. When the refresh fails, \<open>get_exchange_rates\<close> returns the rates of the
  snapshot it holds and leaves the cache as it is: no exception leaves the function. From
  the cache of the freshly loaded module, which holds no snapshot, the result is the empty
  mapping.
\<close>

theorem get_exchange_rates_refresh_failure:
  assumes "refresh fetched t c = Inl e"
  shows "get_exchange_rates fetched t c = (rates c, c) \<and>
         get_exchange_rates fetched t exchange_rate_cache = ([], exchange_rate_cache)"
proof -
  from assms have "fetched = Inl e"
    by (simp add: refresh_def split: sum.splits)
  then show ?thesis
    by (simp add: get_exchange_rates_def refresh_def exchange_rate_cache_def)
qed

theorem get_exchange_rates_refresh_failure_witness:
  "refresh (fetched_rates stub_env) (now stub_env) stale_cache = Inl (External ''rate provider unavailable'') \<and>
   \<not> now stub_env - timestamp stale_cache < CACHE_DURATION \<and>
   get_exchange_rates (fetched_rates stub_env) (now stub_env) stale_cache = ([(''EUR'', 9 / 10)], stale_cache) \<and>
   get_exchange_rates (fetched_rates stub_env) (now stub_env) exchange_rate_cache = ([], exchange_rate_cache)"
proof -
  have h: "refresh (fetched_rates stub_env) (now stub_env) stale_cache = Inl (External ''rate provider unavailable'')"
    by (simp add: refresh_def stub_env_def)
  have s: "\<not> now stub_env - timestamp stale_cache < CACHE_DURATION"
    by (simp add: stub_env_def stale_cache_def CACHE_DURATION_def)
  have r: "rates stale_cache = [(''EUR'', 9 / 10)]"
    by (simp add: stale_cache_def)
  from get_exchange_rates_refresh_failure [OF h] h s r show ?thesis
    by simp
qed

section \<open>A confirmation for an unknown charge\<close>

text \<open>
  Claim C9. A validly signed confirmation whose charge id is the id of no stored record
  is answered with the success of status 200, and the records of the history are the same
  afterwards. The file is written again with the same records when it can be written (a
  file that was absent or unreadable then holds the empty list); the rate cache and the
  provider are not touched.
\<close>

theorem webhook_unknown_charge:
  assumes "construct_event E (data request) (signature_header request) (COINBASE_WEBHOOK_SECRET E) = Inr ev"
    and "event_type ev = ''charge:confirmed''"
    and "event_charge_id ev \<notin> id' ` set (load_payment_history (history_file st))"
  shows "fst (webhook E request st) = (Success, 200) \<and>
         load_payment_history (history_file (snd (webhook E request st))) =
           load_payment_history (history_file st) \<and>
         history_file (snd (webhook E request st)) =
           (if writable (history_file st)
            then (history_file st)\<lparr>payment_history_json :=
                   Stored (load_payment_history (history_file st))\<rparr>
            else history_file st) \<and>
         rate_cache (snd (webhook E request st)) = rate_cache st \<and>
         provider_calls (snd (webhook E request st)) = provider_calls st"
  unfolding webhook_confirmed [OF assms(1,2)] confirm_absent [OF assms(3)]
  by (simp add: save_load) (simp add: save_payment_history_def)

theorem webhook_unknown_charge_witness:
  "construct_event stub_env (data confirm_unknown) (signature_header confirm_unknown)
     (COINBASE_WEBHOOK_SECRET stub_env) =
     Inr \<lparr>event_type = ''charge:confirmed'', event_charge_id = ''ch_404''\<rparr> \<and>
   ''ch_404'' \<notin> id' ` set (load_payment_history (history_file one_pending)) \<and>
   fst (webhook stub_env confirm_unknown one_pending) = (Success, 200) \<and>
   load_payment_history (history_file (snd (webhook stub_env confirm_unknown one_pending))) =
     [pending_ch_1] \<and>
   history_file (snd (webhook stub_env confirm_unknown one_pending)) = history_file one_pending"
proof -
  let ?ev = "\<lparr>event_type = ''charge:confirmed'', event_charge_id = ''ch_404''\<rparr>"
  have h1: "construct_event stub_env (data confirm_unknown) (signature_header confirm_unknown)
     (COINBASE_WEBHOOK_SECRET stub_env) = Inr ?ev"
    by (simp add: confirm_unknown_def stub_event)
  have h2: "event_type ?ev = ''charge:confirmed''" by simp
  have h3: "event_charge_id ?ev \<notin> id' ` set (load_payment_history (history_file one_pending))"
    by (simp add: one_pending_history)
  have same: "(history_file one_pending)\<lparr>payment_history_json := Stored [pending_ch_1]\<rparr> =
                history_file one_pending"
    by (simp add: one_pending_def fresh_state_def)
  from webhook_unknown_charge [OF h1 h2 h3] h1 h3 show ?thesis
    by (simp add: one_pending_history same)
qed

section \<open>Charge creation for a valid request\<close>

text \<open>
  Claim C1 does not hold of the code. For a request whose amount is a float above zero,
  whose currency is in \<open>SUPPORTED_CURRENCIES\<close> and whose crypto is a key of
  \<open>SUPPORTED_CRYPTOS\<close>, the provider's client is called once. If the call raises, or the
  QR renderer raises on the hosted URL, the answer is the failure of status 500 and the
  history file is untouched. If both succeed, the record of status \<open>PENDING\<close> with the
  provider's id and hosted URL is appended to the history when the file can be written
  (and dropped without a trace when it cannot), and the answer is the failure of status
  500 all the same: the success value cannot be rendered. No request is answered with
  the record. The first request of a process reaches the handler through the rate
  limiter with this very result.
\<close>

theorem create_payment_valid_request:
  assumes "amount_of E body = Inr a" and "gt_zero a"
    and "currency_of body \<in> set (SUPPORTED_CURRENCIES E)"
    and "map_of (SUPPORTED_CRYPTOS E) (crypto_of body) = Some name"
  shows "(\<exists>call. provider_calls (snd (create_payment E body st)) = provider_calls st @ [call] \<and>
     (case charge_create E call of
        Inl e \<Rightarrow>
          fst (create_payment E body st) = (ErrorOf e, 500) \<and>
          history_file (snd (create_payment E body st)) = history_file st
      | Inr ch \<Rightarrow>
          (case qr_png_hex E (hosted_url ch) of
             Inl e \<Rightarrow>
               fst (create_payment E body st) = (ErrorOf e, 500) \<and>
               history_file (snd (create_payment E body st)) = history_file st
           | Inr qr_code \<Rightarrow>
               fst (create_payment E body st) = (ErrorOf TypeError, 500) \<and>
               (if writable (history_file st)
                then \<exists>r. load_payment_history (history_file (snd (create_payment E body st))) =
                            load_payment_history (history_file st) @ [r] \<and>
                          status r = PENDING \<and> completed_at r = None \<and>
                          id' r = charge_id ch \<and> payment_url r = hosted_url ch \<and>
                          amount r = a \<and> currency r = currency_of body \<and>
                          crypto r = crypto_of body
                else load_payment_history (history_file (snd (create_payment E body st))) =
                       load_payment_history (history_file st))))) \<and>
     create_payment_route E ip body ([], st) =
       Inr (fst (create_payment E body st), [(ip, [now E])], snd (create_payment E body st))"
proof -
  note v = assms(1) gt_zero_not_le_zero [OF assms(2)] assms(4) assms(3)
  have "\<exists>call. provider_calls (snd (create_payment E body st)) = provider_calls st @ [call] \<and>
     (case charge_create E call of
        Inl e \<Rightarrow>
          fst (create_payment E body st) = (ErrorOf e, 500) \<and>
          history_file (snd (create_payment E body st)) = history_file st
      | Inr ch \<Rightarrow>
          (case qr_png_hex E (hosted_url ch) of
             Inl e \<Rightarrow>
               fst (create_payment E body st) = (ErrorOf e, 500) \<and>
               history_file (snd (create_payment E body st)) = history_file st
           | Inr qr_code \<Rightarrow>
               fst (create_payment E body st) = (ErrorOf TypeError, 500) \<and>
               (if writable (history_file st)
                then \<exists>r. load_payment_history (history_file (snd (create_payment E body st))) =
                            load_payment_history (history_file st) @ [r] \<and>
                          status r = PENDING \<and> completed_at r = None \<and>
                          id' r = charge_id ch \<and> payment_url r = hosted_url ch \<and>
                          amount r = a \<and> currency r = currency_of body \<and>
                          crypto r = crypto_of body
                else load_payment_history (history_file (snd (create_payment E body st))) =
                       load_payment_history (history_file st))))"
    using create_payment_valid_summary [OF v, of st]
    by (elim exE conjE)
       (auto simp: dict_of_fields new_payment_info_def split: sum.splits)
  then show ?thesis
    by (simp add: create_payment_route_first)
qed

text \<open>
  The request of 25 USD in BTC, as the first request of a process with a provider that
  issues \<^verbatim>\<open>ch_1\<close>: one call to the provider, the pending record of \<^verbatim>\<open>ch_1\<close> in the
  history, and the answer 500.
\<close>

theorem create_payment_valid_request_witness:
  "amount_of stub_env stub_request = Inr (Fin 25) \<and> gt_zero (Fin 25) \<and>
   currency_of stub_request \<in> set (SUPPORTED_CURRENCIES stub_env) \<and>
   map_of (SUPPORTED_CRYPTOS stub_env) (crypto_of stub_request) = Some ''Bitcoin'' \<and>
   (\<exists>call. provider_calls (snd (create_payment stub_env stub_request fresh_state)) = [call] \<and>
      fst (create_payment stub_env stub_request fresh_state) = (ErrorOf TypeError, 500) \<and>
      (\<exists>r. load_payment_history
              (history_file (snd (create_payment stub_env stub_request fresh_state))) = [r] \<and>
           status r = PENDING \<and> completed_at r = None \<and> id' r = ''ch_1'' \<and>
           payment_url r = ''https://pay.example/ch_1'' \<and>
           amount r = Fin 25 \<and> currency r = currency_of stub_request \<and>
           crypto r = crypto_of stub_request)) \<and>
   create_payment_route stub_env ''10.0.0.1'' stub_request ([], fresh_state) =
     Inr (fst (create_payment stub_env stub_request fresh_state),
          [(''10.0.0.1'', [now stub_env])],
          snd (create_payment stub_env stub_request fresh_state))"
  using stub_amount pos25 stub_currency stub_crypto
    create_payment_valid_request [OF stub_amount pos25 stub_currency stub_crypto,
      where st = fresh_state and ip = "''10.0.0.1''",
      unfolded stub_charge sum.case stub_qr fresh_simps if_True append_Nil charge.select_convs]
  by (intro conjI) (elim conjE, assumption)+

section \<open>A currency without a rate\<close>

text \<open>
  Claim C7, as the code has it. For a request that passes the checks, when the rates
  that \<open>get_exchange_rates\<close> returns hold no rate for its currency: the provider is
  called all the same, with the exchange rate 1 in the metadata, the default of line 220,
  and the record appended to the history has the \<open>exchange_rate\<close> 1, not an absent
  one. The webhook handler, the only code that rewrites stored records, leaves the
  \<open>exchange_rate\<close> of every stored record as it is.
\<close>

theorem create_payment_missing_rate:
  assumes "amount_of E body = Inr a" and "\<not> le_zero a"
    and "currency_of body \<in> set (SUPPORTED_CURRENCIES E)"
    and "map_of (SUPPORTED_CRYPTOS E) (crypto_of body) = Some name"
    and "map_of (fst (get_exchange_rates (fetched_rates E) (now E) (rate_cache st)))
           (currency_of body) = None"
  shows "(\<exists>call. provider_calls (snd (create_payment E body st)) = provider_calls st @ [call] \<and>
     meta_exchange_rate (charge_metadata call) = 1 \<and>
     (case charge_create E call of
        Inl e \<Rightarrow> history_file (snd (create_payment E body st)) = history_file st
      | Inr ch \<Rightarrow>
          (case qr_png_hex E (hosted_url ch) of
             Inl e \<Rightarrow> history_file (snd (create_payment E body st)) = history_file st
           | Inr qr_code \<Rightarrow>
               (if writable (history_file st)
                then \<exists>r. load_payment_history (history_file (snd (create_payment E body st))) =
                            load_payment_history (history_file st) @ [r] \<and>
                          id' r = charge_id ch \<and> currency r = currency_of body \<and>
                          exchange_rate r = Some 1
                else load_payment_history (history_file (snd (create_payment E body st))) =
                       load_payment_history (history_file st))))) \<and>
     map exchange_rate (load_payment_history (history_file (snd (webhook E' request st')))) =
       map exchange_rate (load_payment_history (history_file st'))"
proof -
  note v = assms(1,2,4,3)
  have one: "rate_for (fst (get_exchange_rates (fetched_rates E) (now E) (rate_cache st)))
               (currency_of body) = 1"
    using assms(5) by (simp add: rate_for_def)
  have "\<exists>call. provider_calls (snd (create_payment E body st)) = provider_calls st @ [call] \<and>
     meta_exchange_rate (charge_metadata call) = 1 \<and>
     (case charge_create E call of
        Inl e \<Rightarrow> history_file (snd (create_payment E body st)) = history_file st
      | Inr ch \<Rightarrow>
          (case qr_png_hex E (hosted_url ch) of
             Inl e \<Rightarrow> history_file (snd (create_payment E body st)) = history_file st
           | Inr qr_code \<Rightarrow>
               (if writable (history_file st)
                then \<exists>r. load_payment_history (history_file (snd (create_payment E body st))) =
                            load_payment_history (history_file st) @ [r] \<and>
                          id' r = charge_id ch \<and> currency r = currency_of body \<and>
                          exchange_rate r = Some 1
                else load_payment_history (history_file (snd (create_payment E body st))) =
                       load_payment_history (history_file st))))"
    using create_payment_valid_summary [OF v, of st]
    by (elim exE conjE)
       (auto simp: one dict_of_fields new_payment_info_def charge_arguments_def
             split: sum.splits)
  then show ?thesis
    by (simp add: webhook_exchange_rate)
qed

text \<open>
  The stub request with the rate provider unavailable and no earlier snapshot: the call
  and the stored record carry the rate 1, and confirming the stored record of
  \<^verbatim>\<open>ch_1\<close> leaves its rate.
\<close>

theorem create_payment_missing_rate_witness:
  "amount_of stub_env stub_request = Inr (Fin 25) \<and> \<not> le_zero (Fin 25) \<and>
   currency_of stub_request \<in> set (SUPPORTED_CURRENCIES stub_env) \<and>
   map_of (SUPPORTED_CRYPTOS stub_env) (crypto_of stub_request) = Some ''Bitcoin'' \<and>
   map_of (fst (get_exchange_rates (fetched_rates stub_env) (now stub_env)
                  (rate_cache fresh_state))) (currency_of stub_request) = None \<and>
   (\<exists>call. provider_calls (snd (create_payment stub_env stub_request fresh_state)) = [call] \<and>
      meta_exchange_rate (charge_metadata call) = 1 \<and>
      (\<exists>r. load_payment_history
              (history_file (snd (create_payment stub_env stub_request fresh_state))) = [r] \<and>
           id' r = ''ch_1'' \<and> currency r = currency_of stub_request \<and>
           exchange_rate r = Some 1)) \<and>
   map exchange_rate
     (load_payment_history (history_file (snd (webhook stub_env confirm_ch_1 one_pending)))) =
   map exchange_rate (load_payment_history (history_file one_pending))"
  using stub_amount valid25 stub_currency stub_crypto stub_rate(2) [of "currency_of stub_request"]
    create_payment_missing_rate [OF stub_amount valid25 stub_currency stub_crypto
      stub_rate(2) [of "currency_of stub_request"],
      where E' = stub_env and request = confirm_ch_1 and st' = one_pending,
      unfolded stub_charge sum.case stub_qr fresh_simps if_True append_Nil charge.select_convs]
  by (intro conjI) (elim conjE, assumption)+

text \<open>
  The claim as stated fails: with no rate for USD, the record stored for the stub request
  has the rate 1, not an absent one.
\<close>

theorem create_payment_missing_rate_counterexample:
  "map_of (fst (get_exchange_rates (fetched_rates stub_env) (now stub_env) (rate_cache fresh_state)))
     ''USD'' = None \<and>
   map exchange_rate
     (load_payment_history (history_file (snd (create_payment stub_env stub_request fresh_state)))) =
     [Some 1] \<and>
   map exchange_rate
     (load_payment_history (history_file (snd (create_payment stub_env stub_request fresh_state)))) \<noteq>
     [None]"
  unfolding stub_create Let_def
  by (simp add: stub_rate new_payment_info_def dict_of_def save_load fresh_simps)

section \<open>Defaults of the currency and the crypto\<close>



end
